theory Spec2Isabelle
  imports Complex_Main "HOL-Library.Word"
begin

section \<open>The performance agent of the inspector\<close>

text \<open>
  A shallow embedding of \<^verbatim>\<open>InspectorPerformanceAgent.cpp\<close>. Every member function
  of the agent becomes a function from the agent before the call to the agent after
  it. The member fields are the fields of the record \<open>agent\<close>, named as in the source
  without the trailing underscore.

  The header that declares the fields is not among the sources at hand, so their types
  are taken from the way the source uses them and from the spec, which describes the
  times as floating-point seconds and the counts and depths as integers.
  \<^item> The times are C++ \<^verbatim>\<open>double\<close>s (the hooks of the task observer receive them as
    such). They are modelled as real numbers: rounding is abstracted, \<open>==\<close> is equality
    of reals, and there is no NaN. Every concrete scenario below uses small integers,
    which a double holds exactly.
  \<^item> The two depth counters are modelled as 32-bit machine integers and the two event
    counts as 64-bit ones, so that \<open>++\<close> and \<open>--\<close> wrap around as the machine does.
    \<open>sint\<close> reads a depth as a signed \<^verbatim>\<open>int\<close>, \<open>unat\<close> as an \<^verbatim>\<open>unsigned\<close>; the word
    \<open>- 1\<close> is \<open>-1\<close> in the first reading and \<open>4294967295\<close> in the second.
\<close>

subsection \<open>Data\<close>

datatype response = OK | Error string

datatype metric = Metric (metric_name: string) (metric_value: real)

text \<open>
  The collaborators the agent calls. The values the host answers with are the fields of
  the record \<open>host\<close>: \<open>INSTANCE_COUNTERS_LIST\<close> stands for the macro of
  \<^verbatim>\<open>platform/InstanceCounters.h\<close> (the names of the counter types, in enumeration
  order), which is a parameter here; \<open>CounterValue\<close> is \<open>InstanceCounters::CounterValue\<close>;
  \<open>GetDocument\<close> is \<open>inspected_frames_->Root()->GetDocument()\<close>, \<open>None\<close> for the null
  pointer, and the two fields of a document are the timings that \<open>getMetrics\<close> reads
  from it.

  The calls the agent makes to its collaborators are recorded, in order, in the field
  \<open>calls\<close> of the agent's record: the registrations with \<open>instrumenting_agents_\<close> and with
  the current thread, each query of a counter, of the document (\<open>CallGetDocument\<close>), of
  its paint timing (\<open>CallFirstMeaningfulPaint\<close>) and of its document timing
  (\<open>CallDomContentLoadedEventStart\<close>), and the push to the frontend. The persisted
  properties behind \<open>state_\<close> are the field \<open>state\<close>.
\<close>

record document =
  FirstMeaningfulPaint :: real
  DomContentLoadedEventStart :: real

record host =
  INSTANCE_COUNTERS_LIST :: "string list"
  CounterValue :: "nat \<Rightarrow> int"
  GetDocument :: "document option"

datatype call =
    AddInspectorPerformanceAgent
  | RemoveInspectorPerformanceAgent
  | AddTaskTimeObserver
  | RemoveTaskTimeObserver
  | CallCounterValue nat
  | CallGetDocument
  | CallFirstMeaningfulPaint
  | CallDomContentLoadedEventStart
  | FrontendMetrics "metric list" string

record agent =
  enabled :: bool
  layout_duration :: real
  recalc_style_duration :: real
  script_duration :: real
  task_duration :: real
  task_start_time :: real
  layout_count :: "64 word"
  recalc_style_count :: "64 word"
  script_call_depth :: "32 word"
  layout_depth :: "32 word"
  state :: "string \<rightharpoonup> bool"
  calls :: "call list"

definition kPerformanceAgentEnabled :: string where
  "kPerformanceAgentEnabled = ''PerformanceAgentEnabled''"

definition kInstanceCounterNames :: "host \<Rightarrow> string list" where
  "kInstanceCounterNames h = map (\<lambda>name. name @ ''Count'') (INSTANCE_COUNTERS_LIST h)"

text \<open>
  Modelled from the spec: the initial values of the fields, which the header (not among
  the sources) gives; the constructor in the source initialises \<open>inspected_frames_\<close>
  only. The agent is created disabled, with every counter at zero.
\<close>

definition InspectorPerformanceAgent :: agent where
  "InspectorPerformanceAgent =
     \<lparr> enabled = False, layout_duration = 0, recalc_style_duration = 0,
       script_duration = 0, task_duration = 0, task_start_time = 0,
       layout_count = 0, recalc_style_count = 0,
       script_call_depth = 0, layout_depth = 0,
       state = Map.empty, calls = [] \<rparr>"

subsection \<open>Enabling and disabling\<close>

definition setBoolean :: "string \<Rightarrow> bool \<Rightarrow> agent \<Rightarrow> agent" where
  "setBoolean k v a = a\<lparr>state := (state a)(k \<mapsto> v)\<rparr>"

definition booleanProperty :: "string \<Rightarrow> bool \<Rightarrow> agent \<Rightarrow> bool" where
  "booleanProperty k dflt a = (case state a k of None \<Rightarrow> dflt | Some v \<Rightarrow> v)"

definition call_host :: "call \<Rightarrow> agent \<Rightarrow> agent" where
  "call_host c a = a\<lparr>calls := calls a @ [c]\<rparr>"

definition enable :: "agent \<Rightarrow> response \<times> agent" where
  "enable a =
     (if enabled a then (OK, a)
      else
        let a1 = a\<lparr>enabled := True\<rparr>;
            a2 = setBoolean kPerformanceAgentEnabled True a1;
            a3 = call_host AddInspectorPerformanceAgent a2;
            a4 = call_host AddTaskTimeObserver a3;
            a5 = a4\<lparr>task_start_time := 0\<rparr>
        in (OK, a5))"

definition disable :: "agent \<Rightarrow> response \<times> agent" where
  "disable a =
     (if \<not> enabled a then (OK, a)
      else
        let a1 = a\<lparr>enabled := False\<rparr>;
            a2 = setBoolean kPerformanceAgentEnabled False a1;
            a3 = call_host RemoveInspectorPerformanceAgent a2;
            a4 = call_host RemoveTaskTimeObserver a3
        in (OK, a4))"

definition Restore :: "agent \<Rightarrow> agent" where
  "Restore a =
     (if booleanProperty kPerformanceAgentEnabled False a then snd (enable a) else a)"

subsection \<open>The snapshot of the metrics\<close>

definition AppendMetric :: "metric list \<Rightarrow> string \<Rightarrow> real \<Rightarrow> metric list" where
  "AppendMetric container name v = container @ [Metric name v]"

text \<open>
  The loop over the instance counters, \<open>for (i = 0; i < ARRAY_SIZE(...); ++i)\<close>, run
  from index \<open>i\<close> with \<open>n\<close> iterations left: each iteration asks the host for the value
  of counter \<open>i\<close> and appends one metric.
\<close>

fun instance_counters_loop ::
  "host \<Rightarrow> nat \<Rightarrow> nat \<Rightarrow> metric list \<times> agent \<Rightarrow> metric list \<times> agent" where
  "instance_counters_loop h i 0 (result, a) = (result, a)"
| "instance_counters_loop h i (Suc n) (result, a) =
     instance_counters_loop h (Suc i) n
       (AppendMetric result (kInstanceCounterNames h ! i) (real_of_int (CounterValue h i)),
        call_host (CallCounterValue i) a)"

definition getMetrics :: "host \<Rightarrow> agent \<Rightarrow> response \<times> metric list \<times> agent" where
  "getMetrics h a =
     (if \<not> enabled a then (OK, [], a)
      else
        let (r1, a1) = instance_counters_loop h 0 (length (kInstanceCounterNames h)) ([], a);
            r2 = AppendMetric r1 ''LayoutCount'' (real (unat (layout_count a1)));
            r3 = AppendMetric r2 ''RecalcStyleCount'' (real (unat (recalc_style_count a1)));
            r4 = AppendMetric r3 ''LayoutDuration'' (layout_duration a1);
            r5 = AppendMetric r4 ''RecalcStyleDuration'' (recalc_style_duration a1);
            r6 = AppendMetric r5 ''ScriptDuration'' (script_duration a1);
            r7 = AppendMetric r6 ''TaskDuration'' (task_duration a1);
            a2 = call_host CallGetDocument a1
        in (case GetDocument h of
              None \<Rightarrow> (OK, r7, a2)
            | Some doc \<Rightarrow>
                let r8 = AppendMetric r7 ''FirstMeaningfulPaint'' (FirstMeaningfulPaint doc);
                    a3 = call_host CallFirstMeaningfulPaint a2;
                    r9 = AppendMetric r8 ''DomContentLoaded'' (DomContentLoadedEventStart doc);
                    a4 = call_host CallDomContentLoadedEventStart a3
                in (OK, r9, a4)))"

definition ConsoleTimeStamp :: "host \<Rightarrow> string \<Rightarrow> agent \<Rightarrow> agent" where
  "ConsoleTimeStamp h title a =
     (if \<not> enabled a then a
      else
        let (r, metrics, a1) = getMetrics h a
        in call_host (FrontendMetrics metrics title) a1)"

subsection \<open>Probes\<close>

text \<open>
  Modelled from the spec: the probe object that the host hands to a pair of hooks
  (\<^verbatim>\<open>core/probe/CoreProbes.h\<close> is not among the sources). The spec describes it as an
  event context that exposes a method to capture a start time and a method to compute
  the elapsed duration, so the probe holds the captured start time.
\<close>

record probe =
  start_time :: real

text \<open>
  Modelled from the spec: \<open>probe.CaptureStartTime()\<close>, which "captures the current time
  as the interval start". The reading of the clock at the moment of the call is the
  argument \<open>now\<close>.
\<close>

definition CaptureStartTime :: "real \<Rightarrow> probe \<Rightarrow> probe" where
  "CaptureStartTime now p = p\<lparr>start_time := now\<rparr>"

text \<open>
  Modelled from the spec: \<open>probe.Duration()\<close>, which "computes elapsed time since the
  captured start".
\<close>

definition Duration :: "real \<Rightarrow> probe \<Rightarrow> real" where
  "Duration now p = now - start_time p"

subsection \<open>The hooks\<close>

text \<open>
  \<open>if (!script_call_depth_++)\<close> tests the value before the increment;
  \<open>if (!--script_call_depth_)\<close> tests the value after the decrement. A \<open>Will\<close> hook
  may write the probe, so it returns the probe with the agent.
\<close>

definition Will_CallFunction :: "real \<Rightarrow> probe \<Rightarrow> agent \<Rightarrow> probe \<times> agent" where
  "Will_CallFunction now p a =
     (let old = script_call_depth a;
          a1 = a\<lparr>script_call_depth := old + 1\<rparr>
      in if old = 0 then (CaptureStartTime now p, a1) else (p, a1))"

definition Did_CallFunction :: "real \<Rightarrow> probe \<Rightarrow> agent \<Rightarrow> agent" where
  "Did_CallFunction now p a =
     (let a1 = a\<lparr>script_call_depth := script_call_depth a - 1\<rparr>
      in if script_call_depth a1 = 0
         then a1\<lparr>script_duration := script_duration a1 + Duration now p\<rparr>
         else a1)"

definition Will_ExecuteScript :: "real \<Rightarrow> probe \<Rightarrow> agent \<Rightarrow> probe \<times> agent" where
  "Will_ExecuteScript now p a =
     (let old = script_call_depth a;
          a1 = a\<lparr>script_call_depth := old + 1\<rparr>
      in if old = 0 then (CaptureStartTime now p, a1) else (p, a1))"

definition Did_ExecuteScript :: "real \<Rightarrow> probe \<Rightarrow> agent \<Rightarrow> agent" where
  "Did_ExecuteScript now p a =
     (let a1 = a\<lparr>script_call_depth := script_call_depth a - 1\<rparr>
      in if script_call_depth a1 = 0
         then a1\<lparr>script_duration := script_duration a1 + Duration now p\<rparr>
         else a1)"

definition Will_RecalculateStyle :: "real \<Rightarrow> probe \<Rightarrow> agent \<Rightarrow> probe \<times> agent" where
  "Will_RecalculateStyle now p a = (CaptureStartTime now p, a)"

definition Did_RecalculateStyle :: "real \<Rightarrow> probe \<Rightarrow> agent \<Rightarrow> agent" where
  "Did_RecalculateStyle now p a =
     (let a1 = a\<lparr>recalc_style_duration := recalc_style_duration a + Duration now p\<rparr>
      in a1\<lparr>recalc_style_count := recalc_style_count a1 + 1\<rparr>)"

definition Will_UpdateLayout :: "real \<Rightarrow> probe \<Rightarrow> agent \<Rightarrow> probe \<times> agent" where
  "Will_UpdateLayout now p a =
     (let old = layout_depth a;
          a1 = a\<lparr>layout_depth := old + 1\<rparr>
      in if old = 0 then (CaptureStartTime now p, a1) else (p, a1))"

definition Did_UpdateLayout :: "real \<Rightarrow> probe \<Rightarrow> agent \<Rightarrow> agent" where
  "Did_UpdateLayout now p a =
     (let a1 = a\<lparr>layout_depth := layout_depth a - 1\<rparr>
      in if layout_depth a1 \<noteq> 0 then a1
         else
           let a2 = a1\<lparr>layout_duration := layout_duration a1 + Duration now p\<rparr>
           in a2\<lparr>layout_count := layout_count a2 + 1\<rparr>)"

definition WillProcessTask :: "real \<Rightarrow> agent \<Rightarrow> agent" where
  "WillProcessTask start a = a\<lparr>task_start_time := start\<rparr>"

definition DidProcessTask :: "real \<Rightarrow> real \<Rightarrow> agent \<Rightarrow> agent" where
  "DidProcessTask start end_time a =
     (if task_start_time a = start
      then a\<lparr>task_duration := task_duration a + (end_time - start)\<rparr>
      else a)"

subsection \<open>The host's side of the hooks\<close>

text \<open>
  The four kinds of probe, and the overloading of \<open>Will\<close> and \<open>Did\<close> on them.
\<close>

datatype probe_kind = CallFunction | ExecuteScript | RecalculateStyle | UpdateLayout

fun Will :: "probe_kind \<Rightarrow> real \<Rightarrow> probe \<Rightarrow> agent \<Rightarrow> probe \<times> agent" where
  "Will CallFunction = Will_CallFunction"
| "Will ExecuteScript = Will_ExecuteScript"
| "Will RecalculateStyle = Will_RecalculateStyle"
| "Will UpdateLayout = Will_UpdateLayout"

fun Did :: "probe_kind \<Rightarrow> real \<Rightarrow> probe \<Rightarrow> agent \<Rightarrow> agent" where
  "Did CallFunction = Did_CallFunction"
| "Did ExecuteScript = Did_ExecuteScript"
| "Did RecalculateStyle = Did_RecalculateStyle"
| "Did UpdateLayout = Did_UpdateLayout"

text \<open>
  The events the host emits: the beginning and the end of a piece of work, each with the
  kind of the work and the reading of the clock.
\<close>

datatype event = Begin probe_kind real | End probe_kind real

text \<open>
  Modelled from the spec: a probe as the host creates it, before any hook has seen it
  (the constructor of the probe is not among the sources). No start time is captured
  yet; the field holds 0.
\<close>

definition new_probe :: probe where
  "new_probe = \<lparr> start_time = 0 \<rparr>"

text \<open>
  Modelled from the spec: the host's instrumentation dispatcher, which is not among the
  sources. It brackets each piece of work with a probe of its own: at the beginning it
  creates the probe and calls \<open>Will\<close>, at the end it calls \<open>Did\<close> with the same probe.
  Work nests, so the open probes form a stack, innermost first. An end event that
  arrives when no probe is open (the work began before the hooks were registered)
  comes with a probe on which this agent never saw \<open>Will\<close>.
\<close>

fun run :: "event list \<Rightarrow> probe list \<Rightarrow> agent \<Rightarrow> probe list \<times> agent" where
  "run [] ps a = (ps, a)"
| "run (Begin k t # es) ps a = (let (p, a1) = Will k t new_probe a in run es (p # ps) a1)"
| "run (End k t # es) [] a = run es [] (Did k t new_probe a)"
| "run (End k t # es) (p # ps) a = run es ps (Did k t p a)"

text \<open>
  A well-nested sequence of events is the trace of a forest of spans: a span has a kind,
  the time of its begin event, the spans nested in it, and the time of its end event.
\<close>

datatype span = Span probe_kind real "span list" real

fun events :: "span \<Rightarrow> event list" where
  "events (Span k b kids e) = Begin k b # concat (map events kids) @ [End k e]"

definition trace :: "span list \<Rightarrow> event list" where
  "trace ss = concat (map events ss)"

fun wall_time :: "span \<Rightarrow> real" where
  "wall_time (Span k b kids e) = e - b"

fun nesting :: "span \<Rightarrow> nat" where
  "nesting (Span k b kids e) = Suc (foldr max (map nesting kids) 0)"

definition max_nesting :: "span list \<Rightarrow> nat" where
  "max_nesting ss = foldr max (map nesting ss) 0"

fun all_spans :: "span \<Rightarrow> span list" where
  "all_spans (Span k b kids e) = Span k b kids e # concat (map all_spans kids)"

fun only_kinds :: "probe_kind list \<Rightarrow> span \<Rightarrow> bool" where
  "only_kinds ks (Span k b kids e) = (k \<in> set ks \<and> list_all (only_kinds ks) kids)"

text \<open>The task observer's side: the scheduler's begin and end events.\<close>

datatype task_event = TaskBegin real | TaskEnd real real

fun run_tasks :: "task_event list \<Rightarrow> agent \<Rightarrow> agent" where
  "run_tasks [] a = a"
| "run_tasks (TaskBegin s # es) a = run_tasks es (WillProcessTask s a)"
| "run_tasks (TaskEnd s e # es) a = run_tasks es (DidProcessTask s e a)"

subsection \<open>Observations used in the statements\<close>

text \<open>
  The totals of the agent: the two counts, the four durations and the two depths.
\<close>

definition counters ::
  "agent \<Rightarrow> (64 word \<times> 64 word) \<times> (real \<times> real \<times> real \<times> real) \<times> (32 word \<times> 32 word)" where
  "counters a =
     ((layout_count a, recalc_style_count a),
      (layout_duration a, recalc_style_duration a, script_duration a, task_duration a),
      (script_call_depth a, layout_depth a))"

text \<open>
  How often the agent has registered itself with the instrumentation dispatcher and
  with the task scheduler.
\<close>

definition registrations :: "agent \<Rightarrow> nat \<times> nat" where
  "registrations a =
     (count_list (calls a) AddInspectorPerformanceAgent,
      count_list (calls a) AddTaskTimeObserver)"

text \<open>A host with two instance counters and no document, and one with a document.\<close>

definition example_host :: host where
  "example_host =
     \<lparr> INSTANCE_COUNTERS_LIST = [''Node'', ''Document''],
       CounterValue = (\<lambda>i. if i = 0 then 7 else 3),
       GetDocument = None \<rparr>"

definition example_host_with_document :: host where
  "example_host_with_document =
     example_host\<lparr>GetDocument :=
       Some \<lparr> FirstMeaningfulPaint = 2, DomContentLoadedEventStart = 3 \<rparr>\<rparr>"







section \<open>The probe hooks\<close>

subsection \<open>Running a sequence of events\<close>

lemma run_append:
  "run (xs @ ys) ps a = run ys (fst (run xs ps a)) (snd (run xs ps a))"
  by (induction xs ps a rule: run.induct) (simp_all add: split_beta)

lemma unat_depth_Suc: "unat (d::32 word) + 1 < 2 ^ 32 \<Longrightarrow> unat (d + 1) = unat d + 1"
  by (simp add: unat_word_ariths)

lemma depth_Suc_nonzero: "unat (d::32 word) + 1 < 2 ^ 32 \<Longrightarrow> d + 1 \<noteq> 0"
  using unat_depth_Suc[of d] by (metis Suc_eq_plus1 nat.distinct(1) unat_0)

lemma nesting_le_foldr: "s \<in> set ss \<Longrightarrow> nesting s \<le> foldr max (map nesting ss) 0"
  by (induction ss) auto

lemma run_unchanged_forest:
  assumes "\<And>s ps. s \<in> set ss \<Longrightarrow> run (events s) ps a = (ps, a)"
  shows "run (concat (map events ss)) ps a = (ps, a)"
  using assms by (induction ss) (simp_all add: run_append)

subsection \<open>The depth counters\<close>

text \<open>
  Each \<open>Will\<close> of a layout probe adds one to \<open>layout_depth\<close> and each \<open>Did\<close> takes one
  away, whatever the depth is; the hooks of the other kinds leave it alone. The same
  holds for \<open>script_call_depth\<close> and the probes of function calls and script
  execution, which share it.
\<close>

lemma layout_depth_Will:
  "layout_depth (snd (Will k t p a)) =
     layout_depth a + (if k = UpdateLayout then 1 else 0)"
  by (cases k)
    (simp_all add: Will_CallFunction_def Will_ExecuteScript_def Will_RecalculateStyle_def
      Will_UpdateLayout_def Let_def)

lemma layout_depth_Did:
  "layout_depth (Did k t p a) = layout_depth a - (if k = UpdateLayout then 1 else 0)"
  by (cases k)
    (simp_all add: Did_CallFunction_def Did_ExecuteScript_def Did_RecalculateStyle_def
      Did_UpdateLayout_def Let_def)






subsection \<open>Layout: spans nested in a layout span are transparent\<close>

lemma Will_UpdateLayout_nested:  "layout_depth a \<noteq> 0 \<Longrightarrow>
   Will_UpdateLayout t p a = (p, a\<lparr>layout_depth := layout_depth a + 1\<rparr>)"
  by (simp add: Will_UpdateLayout_def)

lemma run_layout_nested:
  "only_kinds [UpdateLayout] s \<Longrightarrow> layout_depth a \<noteq> 0 \<Longrightarrow>
   unat (layout_depth a) + nesting s < 2 ^ 32 \<Longrightarrow> run (events s) ps a = (ps, a)"
proof (induction s arbitrary: ps a)
  case (Span k b kids e)
  let ?a1 = "a\<lparr>layout_depth := layout_depth a + 1\<rparr>"
  from Span.prems have k: "k = UpdateLayout" and kids: "list_all (only_kinds [UpdateLayout]) kids"
    by simp_all
  from Span.prems have bound: "unat (layout_depth a) + 1 < 2 ^ 32"
    by simp
  have nz: "layout_depth ?a1 \<noteq> 0"
    using depth_Suc_nonzero[OF bound] by simp
  have inner: "run (events s) qs ?a1 = (qs, ?a1)" if "s \<in> set kids" for s qs
  proof (rule Span.IH[OF that _ nz])
    show "only_kinds [UpdateLayout] s"
      using kids that by (simp add: list_all_iff)
    have "nesting s \<le> foldr max (map nesting kids) 0"
      by (rule nesting_le_foldr[OF that])
    then show "unat (layout_depth ?a1) + nesting s < 2 ^ 32"
      using Span.prems(3) unat_depth_Suc[OF bound] by simp
  qed
  have "run (concat (map events kids)) (new_probe # ps) ?a1 = (new_probe # ps, ?a1)"
    by (rule run_unchanged_forest) (rule inner)
  moreover have "Did_UpdateLayout e new_probe ?a1 = a"
    using nz Span.prems(2) by (simp add: Did_UpdateLayout_def)
  ultimately show ?case
    using Span.prems(2) by (simp add: k Will_UpdateLayout_nested run_append)
qed

lemma run_layout_outermost:
  assumes "only_kinds [UpdateLayout] s" and "nesting s < 2 ^ 32" and "layout_depth a = 0"
  shows "run (events s) ps a =
           (ps, a\<lparr>layout_duration := layout_duration a + wall_time s,
                  layout_count := layout_count a + 1\<rparr>)"
proof (cases s)
  case (Span k b kids e)
  let ?p = "CaptureStartTime b new_probe"
  let ?a1 = "a\<lparr>layout_depth := 1\<rparr>"
  from assms Span have k: "k = UpdateLayout" and kids: "list_all (only_kinds [UpdateLayout]) kids"
    by simp_all
  have inner: "run (events s') qs ?a1 = (qs, ?a1)" if "s' \<in> set kids" for s' qs
  proof (rule run_layout_nested)
    show "only_kinds [UpdateLayout] s'"
      using kids that by (simp add: list_all_iff)
    show "layout_depth ?a1 \<noteq> 0" by simp
    have "nesting s' \<le> foldr max (map nesting kids) 0"
      by (rule nesting_le_foldr[OF that])
    then show "unat (layout_depth ?a1) + nesting s' < 2 ^ 32"
      using assms(2) Span by simp
  qed
  have mid: "run (concat (map events kids)) (?p # ps) ?a1 = (?p # ps, ?a1)"
    by (rule run_unchanged_forest) (rule inner)
  have "Will_UpdateLayout b new_probe a = (?p, ?a1)"
    using assms(3) by (simp add: Will_UpdateLayout_def)
  moreover have "Did_UpdateLayout e ?p ?a1 =
      a\<lparr>layout_duration := layout_duration a + (e - b), layout_count := layout_count a + 1\<rparr>"
    using assms(3) by (cases a) (simp add: Did_UpdateLayout_def Duration_def CaptureStartTime_def)
  ultimately show ?thesis
    using mid by (simp add: Span k run_append)
qed

lemma run_layout_forest:
  assumes "list_all (only_kinds [UpdateLayout]) ss" and "max_nesting ss < 2 ^ 32"
    and "layout_depth a = 0"
  shows "run (trace ss) ps a =
           (ps, a\<lparr>layout_duration := layout_duration a + sum_list (map wall_time ss),
                  layout_count := layout_count a + of_nat (length ss)\<rparr>)"
  using assms
proof (induction ss arbitrary: a)
  case Nil
  then show ?case by (simp add: trace_def)
next
  case (Cons s ss)
  let ?a1 = "a\<lparr>layout_duration := layout_duration a + wall_time s,
                layout_count := layout_count a + 1\<rparr>"
  have "run (events s) ps a = (ps, ?a1)"
    using Cons.prems by (intro run_layout_outermost) (simp_all add: max_nesting_def)
  moreover have "run (trace ss) ps ?a1 =
      (ps, ?a1\<lparr>layout_duration := layout_duration ?a1 + sum_list (map wall_time ss),
                 layout_count := layout_count ?a1 + of_nat (length ss)\<rparr>)"
    using Cons.prems by (intro Cons.IH) (simp_all add: max_nesting_def)
  ultimately show ?case
    by (simp add: trace_def run_append add.assoc add.commute)
qed

text \<open>
  C1: take any forest of layout spans (a well-nested sequence of layout begin and end
  events is the trace of one) whose nesting stays below \<open>2 ^ 32\<close>, the range of the
  depth counter, and an agent with no layout span open. Running the trace adds to
  \<open>layout_duration\<close> the wall times of the outermost spans, end time minus begin time,
  and nothing for the spans nested in them; it adds to \<open>layout_count\<close> the number of
  outermost spans; and it leaves every other field, and the stack of open probes, as
  they were. Step by step: \<open>Will\<close> never changes duration or count, and \<open>Did\<close> changes
  them only when it closes the outermost span (the depth goes from 1 to 0), by the
  time elapsed since the start its probe captured, and by one. In the scenario of the
  spec (begin at 0, nested begin at 1, end at 3, end at 5) the duration grows by
  exactly 5 and the count by exactly 1.
\<close>

theorem layout_outermost_accounting:
  assumes "list_all (only_kinds [UpdateLayout]) ss" and "max_nesting ss < 2 ^ 32"
    and "layout_depth a = 0"
  shows "run (trace ss) ps a =
           (ps, a\<lparr>layout_duration := layout_duration a + sum_list (map wall_time ss),
                  layout_count := layout_count a + of_nat (length ss)\<rparr>) \<and>
         (\<forall>t p c. layout_duration (snd (Will_UpdateLayout t p c)) = layout_duration c \<and>
                  layout_count (snd (Will_UpdateLayout t p c)) = layout_count c) \<and>
         (\<forall>t p c. layout_depth c \<noteq> 1 \<longrightarrow>
                  layout_duration (Did_UpdateLayout t p c) = layout_duration c \<and>
                  layout_count (Did_UpdateLayout t p c) = layout_count c) \<and>
         (\<forall>t p c. layout_depth c = 1 \<longrightarrow>
                  layout_duration (Did_UpdateLayout t p c) = layout_duration c + (t - start_time p) \<and>
                  layout_count (Did_UpdateLayout t p c) = layout_count c + 1 \<and>
                  layout_depth (Did_UpdateLayout t p c) = 0) \<and>
         run [Begin UpdateLayout 0, Begin UpdateLayout 1, End UpdateLayout 3, End UpdateLayout 5] ps a =
           (ps, a\<lparr>layout_duration := layout_duration a + 5,
                  layout_count := layout_count a + 1\<rparr>)"
proof (intro conjI)
  show "run (trace ss) ps a =
           (ps, a\<lparr>layout_duration := layout_duration a + sum_list (map wall_time ss),
                  layout_count := layout_count a + of_nat (length ss)\<rparr>)"
    using assms by (rule run_layout_forest)
  show "\<forall>t p c. layout_duration (snd (Will_UpdateLayout t p c)) = layout_duration c \<and>
                  layout_count (snd (Will_UpdateLayout t p c)) = layout_count c"
    by (simp add: Will_UpdateLayout_def Let_def)
  show "\<forall>t p c. layout_depth c \<noteq> 1 \<longrightarrow>
                  layout_duration (Did_UpdateLayout t p c) = layout_duration c \<and>
                  layout_count (Did_UpdateLayout t p c) = layout_count c"
    by (simp add: Did_UpdateLayout_def Let_def)
  show "\<forall>t p c. layout_depth c = 1 \<longrightarrow>
                  layout_duration (Did_UpdateLayout t p c) = layout_duration c + (t - start_time p) \<and>
                  layout_count (Did_UpdateLayout t p c) = layout_count c + 1 \<and>
                  layout_depth (Did_UpdateLayout t p c) = 0"
    by (simp add: Did_UpdateLayout_def Let_def Duration_def)
  have "run (events (Span UpdateLayout 0 [Span UpdateLayout 1 [] 3] 5)) ps a =
      (ps, a\<lparr>layout_duration :=
                layout_duration a + wall_time (Span UpdateLayout 0 [Span UpdateLayout 1 [] 3] 5),
              layout_count := layout_count a + 1\<rparr>)"
    using assms(3) by (intro run_layout_outermost) simp_all
  then show "run [Begin UpdateLayout 0, Begin UpdateLayout 1, End UpdateLayout 3,
        End UpdateLayout 5] ps a =
      (ps, a\<lparr>layout_duration := layout_duration a + 5, layout_count := layout_count a + 1\<rparr>)"
    by simp
qed

theorem layout_outermost_accounting_witness:
  "list_all (only_kinds [UpdateLayout])
     [Span UpdateLayout 0 [Span UpdateLayout 1 [] 3] 5, Span UpdateLayout 6 [] 8] \<and>
   max_nesting [Span UpdateLayout 0 [Span UpdateLayout 1 [] 3] 5, Span UpdateLayout 6 [] 8] = 2 \<and>
   layout_depth InspectorPerformanceAgent = 0 \<and>
   trace [Span UpdateLayout 0 [Span UpdateLayout 1 [] 3] 5, Span UpdateLayout 6 [] 8] =
     [Begin UpdateLayout 0, Begin UpdateLayout 1, End UpdateLayout 3, End UpdateLayout 5,
      Begin UpdateLayout 6, End UpdateLayout 8] \<and>
   run [Begin UpdateLayout 0, Begin UpdateLayout 1, End UpdateLayout 3, End UpdateLayout 5,
        Begin UpdateLayout 6, End UpdateLayout 8] [] InspectorPerformanceAgent =
     ([], InspectorPerformanceAgent\<lparr>layout_duration := 7, layout_count := 2\<rparr>) \<and>
   run [Begin UpdateLayout 0, Begin UpdateLayout 1, End UpdateLayout 3, End UpdateLayout 5] []
       InspectorPerformanceAgent =
     ([], InspectorPerformanceAgent\<lparr>layout_duration := 5, layout_count := 1\<rparr>)"
proof -
  let ?ss = "[Span UpdateLayout 0 [Span UpdateLayout 1 [] 3] 5, Span UpdateLayout 6 [] 8]"
  have k: "list_all (only_kinds [UpdateLayout]) ?ss"
    by simp
  have n: "max_nesting ?ss = 2"
    by (simp add: max_nesting_def)
  have n': "max_nesting ?ss < 2 ^ 32"
    by (simp add: n)
  have d: "layout_depth InspectorPerformanceAgent = 0"
    by (simp add: InspectorPerformanceAgent_def)
  have t: "trace ?ss =
     [Begin UpdateLayout 0, Begin UpdateLayout 1, End UpdateLayout 3, End UpdateLayout 5,
      Begin UpdateLayout 6, End UpdateLayout 8]"
    by (simp add: trace_def)
  have z: "layout_duration InspectorPerformanceAgent = 0" "layout_count InspectorPerformanceAgent = 0"
    by (simp_all add: InspectorPerformanceAgent_def)
  show ?thesis
    using layout_outermost_accounting [OF k n' d, of "[]"]
    by (simp only: k n d t z) simp
qed

subsection \<open>Style recalculation: every span counts\<close>

lemma run_style_forest_aux:
  assumes "\<And>s ps a. s \<in> set ss \<Longrightarrow>
     run (events s) ps a =
       (ps, a\<lparr>recalc_style_duration := recalc_style_duration a + sum_list (map wall_time (all_spans s)),
              recalc_style_count := recalc_style_count a + of_nat (length (all_spans s))\<rparr>)"
  shows "run (concat (map events ss)) ps a =
       (ps, a\<lparr>recalc_style_duration :=
                recalc_style_duration a + sum_list (map wall_time (concat (map all_spans ss))),
              recalc_style_count :=
                recalc_style_count a + of_nat (length (concat (map all_spans ss)))\<rparr>)"
  using assms
proof (induction ss arbitrary: a)
  case Nil
  then show ?case by simp
next
  case (Cons s ss)
  show ?case
    by (simp add: run_append Cons.prems Cons.IH[OF Cons.prems] add.assoc)
qed

lemma run_style_span:
  "only_kinds [RecalculateStyle] s \<Longrightarrow>
   run (events s) ps a =
     (ps, a\<lparr>recalc_style_duration := recalc_style_duration a + sum_list (map wall_time (all_spans s)),
            recalc_style_count := recalc_style_count a + of_nat (length (all_spans s))\<rparr>)"
proof (induction s arbitrary: ps a)
  case (Span k b kids e)
  from Span.prems have k: "k = RecalculateStyle"
    and kids: "\<And>s. s \<in> set kids \<Longrightarrow> only_kinds [RecalculateStyle] s"
    by (simp_all add: list_all_iff)
  have "run (concat (map events kids)) qs c =
       (qs, c\<lparr>recalc_style_duration :=
                recalc_style_duration c + sum_list (map wall_time (concat (map all_spans kids))),
              recalc_style_count :=
                recalc_style_count c + of_nat (length (concat (map all_spans kids)))\<rparr>)" for qs c
    by (rule run_style_forest_aux) (simp add: Span.IH kids)
  then show ?case
    by (simp add: k run_append Will_RecalculateStyle_def Did_RecalculateStyle_def
        CaptureStartTime_def Duration_def new_probe_def algebra_simps)
qed

lemma run_style_forest:
  assumes "list_all (only_kinds [RecalculateStyle]) ss"
  shows "run (trace ss) ps a =
       (ps, a\<lparr>recalc_style_duration :=
                recalc_style_duration a + sum_list (map wall_time (concat (map all_spans ss))),
              recalc_style_count :=
                recalc_style_count a + of_nat (length (concat (map all_spans ss)))\<rparr>)"
  unfolding trace_def using assms
  by (intro run_style_forest_aux run_style_span) (simp add: list_all_iff)

text \<open>
  C2: the hooks of style recalculation have no depth counter. \<open>Will\<close> captures the start
  time in its probe at every call, and \<open>Did\<close> adds the time elapsed since the start of
  its own probe to \<open>recalc_style_duration\<close> and one to \<open>recalc_style_count\<close> at every
  call. So for any forest of style spans, nested or not, running the trace adds the
  wall time of every span of the forest to the duration and the number of all spans
  to the count. In the scenario of the spec (begin at 0, nested begin at 1, end at 2,
  end at 4) the count grows by 2 and the duration by \<open>(2 - 1) + (4 - 0) = 5\<close>.
\<close>

theorem style_every_span_accounting:
  assumes "list_all (only_kinds [RecalculateStyle]) ss"
  shows "run (trace ss) ps a =
           (ps, a\<lparr>recalc_style_duration :=
                    recalc_style_duration a + sum_list (map wall_time (concat (map all_spans ss))),
                  recalc_style_count :=
                    recalc_style_count a + of_nat (length (concat (map all_spans ss)))\<rparr>) \<and>
         (\<forall>t p c. Will_RecalculateStyle t p c = (p\<lparr>start_time := t\<rparr>, c)) \<and>
         (\<forall>t p c. Did_RecalculateStyle t p c =
                  c\<lparr>recalc_style_duration := recalc_style_duration c + (t - start_time p),
                    recalc_style_count := recalc_style_count c + 1\<rparr>) \<and>
         run [Begin RecalculateStyle 0, Begin RecalculateStyle 1, End RecalculateStyle 2,
              End RecalculateStyle 4] ps a =
           (ps, a\<lparr>recalc_style_duration := recalc_style_duration a + 5,
                  recalc_style_count := recalc_style_count a + 2\<rparr>)"
proof (intro conjI)
  show "run (trace ss) ps a =
           (ps, a\<lparr>recalc_style_duration :=
                    recalc_style_duration a + sum_list (map wall_time (concat (map all_spans ss))),
                  recalc_style_count :=
                    recalc_style_count a + of_nat (length (concat (map all_spans ss)))\<rparr>)"
    using assms by (rule run_style_forest)
  show "\<forall>t p c. Will_RecalculateStyle t p c = (p\<lparr>start_time := t\<rparr>, c)"
    by (simp add: Will_RecalculateStyle_def CaptureStartTime_def)
  show "\<forall>t p c. Did_RecalculateStyle t p c =
                  c\<lparr>recalc_style_duration := recalc_style_duration c + (t - start_time p),
                    recalc_style_count := recalc_style_count c + 1\<rparr>"
    by (simp add: Did_RecalculateStyle_def Duration_def Let_def)
  have "run (events (Span RecalculateStyle 0 [Span RecalculateStyle 1 [] 2] 4)) ps a =
     (ps, a\<lparr>recalc_style_duration := recalc_style_duration a +
              sum_list (map wall_time (all_spans (Span RecalculateStyle 0 [Span RecalculateStyle 1 [] 2] 4))),
            recalc_style_count := recalc_style_count a +
              of_nat (length (all_spans (Span RecalculateStyle 0 [Span RecalculateStyle 1 [] 2] 4)))\<rparr>)"
    by (rule run_style_span) simp
  then show "run [Begin RecalculateStyle 0, Begin RecalculateStyle 1, End RecalculateStyle 2,
              End RecalculateStyle 4] ps a =
           (ps, a\<lparr>recalc_style_duration := recalc_style_duration a + 5,
                  recalc_style_count := recalc_style_count a + 2\<rparr>)"
    by simp
qed

theorem style_every_span_accounting_witness:
  "list_all (only_kinds [RecalculateStyle])
     [Span RecalculateStyle 0 [Span RecalculateStyle 1 [] 2] 4] \<and>
   trace [Span RecalculateStyle 0 [Span RecalculateStyle 1 [] 2] 4] =
     [Begin RecalculateStyle 0, Begin RecalculateStyle 1, End RecalculateStyle 2,
      End RecalculateStyle 4] \<and>
   run [Begin RecalculateStyle 0, Begin RecalculateStyle 1, End RecalculateStyle 2,
        End RecalculateStyle 4] [] InspectorPerformanceAgent =
     ([], InspectorPerformanceAgent\<lparr>recalc_style_duration := 5, recalc_style_count := 2\<rparr>)"
proof -
  let ?ss = "[Span RecalculateStyle 0 [Span RecalculateStyle 1 [] 2] 4]"
  have k: "list_all (only_kinds [RecalculateStyle]) ?ss"
    by simp
  have t: "trace ?ss =
     [Begin RecalculateStyle 0, Begin RecalculateStyle 1, End RecalculateStyle 2,
      End RecalculateStyle 4]"
    by (simp add: trace_def)
  have z: "recalc_style_duration InspectorPerformanceAgent = 0"
    "recalc_style_count InspectorPerformanceAgent = 0"
    by (simp_all add: InspectorPerformanceAgent_def)
  show ?thesis
    using style_every_span_accounting [OF k, of "[]" InspectorPerformanceAgent]
    by (simp only: k t z) simp
qed

subsection \<open>Unmatched end events\<close>







subsection \<open>Function calls and script execution share one depth\<close>

lemma Will_script_nested:
  "k \<in> {CallFunction, ExecuteScript} \<Longrightarrow> script_call_depth a \<noteq> 0 \<Longrightarrow>
   Will k t p a = (p, a\<lparr>script_call_depth := script_call_depth a + 1\<rparr>)"
  by (auto simp: Will_CallFunction_def Will_ExecuteScript_def)

lemma Will_script_outermost:
  "k \<in> {CallFunction, ExecuteScript} \<Longrightarrow> script_call_depth a = 0 \<Longrightarrow>
   Will k t p a = (CaptureStartTime t p, a\<lparr>script_call_depth := 1\<rparr>)"
  by (auto simp: Will_CallFunction_def Will_ExecuteScript_def)

lemma Did_script:
  "k \<in> {CallFunction, ExecuteScript} \<Longrightarrow>
   Did k t p a =
     (if script_call_depth a = 1
      then a\<lparr>script_call_depth := 0, script_duration := script_duration a + Duration t p\<rparr>
      else a\<lparr>script_call_depth := script_call_depth a - 1\<rparr>)"
  by (auto simp: Did_CallFunction_def Did_ExecuteScript_def Let_def)

lemma run_script_nested:
  "only_kinds [CallFunction, ExecuteScript] s \<Longrightarrow> script_call_depth a \<noteq> 0 \<Longrightarrow>
   unat (script_call_depth a) + nesting s < 2 ^ 32 \<Longrightarrow> run (events s) ps a = (ps, a)"
proof (induction s arbitrary: ps a)
  case (Span k b kids e)
  let ?a1 = "a\<lparr>script_call_depth := script_call_depth a + 1\<rparr>"
  from Span.prems have k: "k \<in> {CallFunction, ExecuteScript}"
    and kids: "list_all (only_kinds [CallFunction, ExecuteScript]) kids"
    by simp_all
  from Span.prems have bound: "unat (script_call_depth a) + 1 < 2 ^ 32"
    by simp
  have nz: "script_call_depth ?a1 \<noteq> 0"
    using depth_Suc_nonzero[OF bound] by simp
  have inner: "run (events s) qs ?a1 = (qs, ?a1)" if "s \<in> set kids" for s qs
  proof (rule Span.IH[OF that _ nz])
    show "only_kinds [CallFunction, ExecuteScript] s"
      using kids that by (simp add: list_all_iff)
    have "nesting s \<le> foldr max (map nesting kids) 0"
      by (rule nesting_le_foldr[OF that])
    then show "unat (script_call_depth ?a1) + nesting s < 2 ^ 32"
      using Span.prems(3) unat_depth_Suc[OF bound] by simp
  qed
  have "run (concat (map events kids)) (new_probe # ps) ?a1 = (new_probe # ps, ?a1)"
    by (rule run_unchanged_forest) (rule inner)
  moreover have "Did k e new_probe ?a1 = a"
    using nz Span.prems(2) by (simp add: Did_script[OF k])
  ultimately show ?case
    using Span.prems(2) by (simp add: Will_script_nested[OF k] run_append)
qed

lemma run_script_outermost:
  assumes "only_kinds [CallFunction, ExecuteScript] s" and "nesting s < 2 ^ 32"
    and "script_call_depth a = 0"
  shows "run (events s) ps a = (ps, a\<lparr>script_duration := script_duration a + wall_time s\<rparr>)"
proof (cases s)
  case (Span k b kids e)
  let ?p = "CaptureStartTime b new_probe"
  let ?a1 = "a\<lparr>script_call_depth := 1\<rparr>"
  from assms Span have k: "k \<in> {CallFunction, ExecuteScript}"
    and kids: "list_all (only_kinds [CallFunction, ExecuteScript]) kids"
    by simp_all
  have inner: "run (events s') qs ?a1 = (qs, ?a1)" if "s' \<in> set kids" for s' qs
  proof (rule run_script_nested)
    show "only_kinds [CallFunction, ExecuteScript] s'"
      using kids that by (simp add: list_all_iff)
    show "script_call_depth ?a1 \<noteq> 0" by simp
    have "nesting s' \<le> foldr max (map nesting kids) 0"
      by (rule nesting_le_foldr[OF that])
    then show "unat (script_call_depth ?a1) + nesting s' < 2 ^ 32"
      using assms(2) Span by simp
  qed
  have mid: "run (concat (map events kids)) (?p # ps) ?a1 = (?p # ps, ?a1)"
    by (rule run_unchanged_forest) (rule inner)
  have "Did k e ?p ?a1 = a\<lparr>script_duration := script_duration a + (e - b)\<rparr>"
    using assms(3)
    by (cases a) (simp add: Did_script[OF k] Duration_def CaptureStartTime_def)
  then show ?thesis
    using mid assms(3) by (simp add: Span Will_script_outermost[OF k] run_append)
qed

lemma run_script_forest:
  assumes "list_all (only_kinds [CallFunction, ExecuteScript]) ss" and "max_nesting ss < 2 ^ 32"
    and "script_call_depth a = 0"
  shows "run (trace ss) ps a =
           (ps, a\<lparr>script_duration := script_duration a + sum_list (map wall_time ss)\<rparr>)"
  using assms
proof (induction ss arbitrary: a)
  case Nil
  then show ?case by (simp add: trace_def)
next
  case (Cons s ss)
  let ?a1 = "a\<lparr>script_duration := script_duration a + wall_time s\<rparr>"
  have "run (events s) ps a = (ps, ?a1)"
    using Cons.prems by (intro run_script_outermost) (simp_all add: max_nesting_def)
  moreover have "run (trace ss) ps ?a1 =
      (ps, ?a1\<lparr>script_duration := script_duration ?a1 + sum_list (map wall_time ss)\<rparr>)"
    using Cons.prems by (intro Cons.IH) (simp_all add: max_nesting_def)
  ultimately show ?case
    by (simp add: trace_def run_append add.assoc)
qed

text \<open>
  C5, as amended: the agent has two depth counters, not one for each category.
  \<open>script_call_depth\<close> and \<open>script_duration\<close> are shared by function calls and script
  execution, whose hooks are the same code; \<open>layout_depth\<close> belongs to layout; style
  recalculation has none. For any forest that mixes function-call and script-execution
  spans, the script duration grows by the wall times of the outermost spans only. A
  function call that begins while one script span is open takes the shared depth from
  1 to 2, captures no start time, and its end takes the depth back to 1 and adds
  nothing. The two counters are independent of each other: a layout pair takes
  \<open>layout_depth\<close> from 0 to 1 and back and adds its own elapsed time to the layout
  duration whatever the script depth is, the hooks of the other kinds never touch the
  layout fields, and the layout hooks never touch the script fields.
\<close>

theorem script_depth_shared:
  "Will_CallFunction b p a = Will_ExecuteScript b p a \<and>
   Did_CallFunction e p a = Did_ExecuteScript e p a \<and>
   (list_all (only_kinds [CallFunction, ExecuteScript]) ss \<and> max_nesting ss < 2 ^ 32 \<and>
      script_call_depth a = 0 \<longrightarrow>
    run (trace ss) ps a =
      (ps, a\<lparr>script_duration := script_duration a + sum_list (map wall_time ss)\<rparr>)) \<and>
   (script_call_depth a = 1 \<longrightarrow>
      Will_CallFunction b p a = (p, a\<lparr>script_call_depth := 2\<rparr>) \<and>
      Did_CallFunction e p (a\<lparr>script_call_depth := 2\<rparr>) = a) \<and>
   (layout_depth a = 0 \<longrightarrow>
      run [Begin UpdateLayout b, End UpdateLayout e] ps a =
        (ps, a\<lparr>layout_duration := layout_duration a + (e - b),
               layout_count := layout_count a + 1\<rparr>)) \<and>
   (k \<noteq> UpdateLayout \<longrightarrow>
      layout_depth (snd (Will k b p a)) = layout_depth a \<and>
      layout_depth (Did k e p a) = layout_depth a \<and>
      layout_duration (Did k e p a) = layout_duration a \<and>
      layout_count (Did k e p a) = layout_count a) \<and>
   script_call_depth (snd (Will_UpdateLayout b p a)) = script_call_depth a \<and>
   script_call_depth (Did_UpdateLayout e p a) = script_call_depth a \<and>
   script_duration (Did_UpdateLayout e p a) = script_duration a"
proof (intro conjI impI)
  show "Will_CallFunction b p a = Will_ExecuteScript b p a"
    by (simp add: Will_CallFunction_def Will_ExecuteScript_def)
  show "Did_CallFunction e p a = Did_ExecuteScript e p a"
    by (simp add: Did_CallFunction_def Did_ExecuteScript_def)
next
  assume "list_all (only_kinds [CallFunction, ExecuteScript]) ss \<and> max_nesting ss < 2 ^ 32 \<and>
      script_call_depth a = 0"
  then show "run (trace ss) ps a =
      (ps, a\<lparr>script_duration := script_duration a + sum_list (map wall_time ss)\<rparr>)"
    by (intro run_script_forest) simp_all
next
  assume "script_call_depth a = 1"
  then show "Will_CallFunction b p a = (p, a\<lparr>script_call_depth := 2\<rparr>)"
    by (simp add: Will_CallFunction_def)
next
  assume "script_call_depth a = 1"
  then show "Did_CallFunction e p (a\<lparr>script_call_depth := 2\<rparr>) = a"
    by (cases a) (simp add: Did_CallFunction_def)
next
  assume "layout_depth a = 0"
  then have "run (events (Span UpdateLayout b [] e)) ps a =
      (ps, a\<lparr>layout_duration := layout_duration a + wall_time (Span UpdateLayout b [] e),
             layout_count := layout_count a + 1\<rparr>)"
    by (intro run_layout_outermost) simp_all
  then show "run [Begin UpdateLayout b, End UpdateLayout e] ps a =
        (ps, a\<lparr>layout_duration := layout_duration a + (e - b),
               layout_count := layout_count a + 1\<rparr>)"
    by simp
next
  assume "k \<noteq> UpdateLayout"
  then show "layout_depth (snd (Will k b p a)) = layout_depth a"
    by (simp add: layout_depth_Will)
next
  assume "k \<noteq> UpdateLayout"
  then show "layout_depth (Did k e p a) = layout_depth a"
    by (simp add: layout_depth_Did)
next
  assume "k \<noteq> UpdateLayout"
  then show "layout_duration (Did k e p a) = layout_duration a"
    by (cases k)
      (simp_all add: Did_CallFunction_def Did_ExecuteScript_def Did_RecalculateStyle_def Let_def)
next
  assume "k \<noteq> UpdateLayout"
  then show "layout_count (Did k e p a) = layout_count a"
    by (cases k)
      (simp_all add: Did_CallFunction_def Did_ExecuteScript_def Did_RecalculateStyle_def Let_def)
next
  show "script_call_depth (snd (Will_UpdateLayout b p a)) = script_call_depth a"
    by (simp add: Will_UpdateLayout_def Let_def)
  show "script_call_depth (Did_UpdateLayout e p a) = script_call_depth a"
    by (simp add: Did_UpdateLayout_def Let_def)
  show "script_duration (Did_UpdateLayout e p a) = script_duration a"
    by (simp add: Did_UpdateLayout_def Let_def)
qed

theorem script_depth_shared_witness:
  "list_all (only_kinds [CallFunction, ExecuteScript])
     [Span ExecuteScript 1 [Span CallFunction 2 [] 4] 6, Span CallFunction 7 [] 8] \<and>
   max_nesting [Span ExecuteScript 1 [Span CallFunction 2 [] 4] 6, Span CallFunction 7 [] 8] = 2 \<and>
   script_call_depth InspectorPerformanceAgent = 0 \<and>
   layout_depth InspectorPerformanceAgent = 0 \<and>
   trace [Span ExecuteScript 1 [Span CallFunction 2 [] 4] 6, Span CallFunction 7 [] 8] =
     [Begin ExecuteScript 1, Begin CallFunction 2, End CallFunction 4, End ExecuteScript 6,
      Begin CallFunction 7, End CallFunction 8] \<and>
   run [Begin ExecuteScript 1, Begin CallFunction 2, End CallFunction 4, End ExecuteScript 6,
        Begin CallFunction 7, End CallFunction 8] [] InspectorPerformanceAgent =
     ([], InspectorPerformanceAgent\<lparr>script_duration := 6\<rparr>) \<and>
   script_call_depth (InspectorPerformanceAgent\<lparr>script_call_depth := 1\<rparr>) = 1 \<and>
   Will_CallFunction 2 new_probe (InspectorPerformanceAgent\<lparr>script_call_depth := 1\<rparr>) =
     (new_probe, InspectorPerformanceAgent\<lparr>script_call_depth := 2\<rparr>) \<and>
   Did_CallFunction 4 new_probe (InspectorPerformanceAgent\<lparr>script_call_depth := 2\<rparr>) =
     InspectorPerformanceAgent\<lparr>script_call_depth := 1\<rparr> \<and>
   run [Begin UpdateLayout 2, End UpdateLayout 4] [] InspectorPerformanceAgent =
     ([], InspectorPerformanceAgent\<lparr>layout_duration := 2, layout_count := 1\<rparr>) \<and>
   layout_depth (Did CallFunction 4 new_probe InspectorPerformanceAgent) = 0"
proof -
  let ?ss = "[Span ExecuteScript 1 [Span CallFunction 2 [] 4] 6, Span CallFunction 7 [] 8]"
  have k: "list_all (only_kinds [CallFunction, ExecuteScript]) ?ss"
    by simp
  have n: "max_nesting ?ss = 2"
    by (simp add: max_nesting_def)
  have d: "script_call_depth InspectorPerformanceAgent = 0"
    "layout_depth InspectorPerformanceAgent = 0"
    "script_duration InspectorPerformanceAgent = 0"
    "layout_duration InspectorPerformanceAgent = 0"
    "layout_count InspectorPerformanceAgent = 0"
    by (simp_all add: InspectorPerformanceAgent_def)
  have t: "trace ?ss =
     [Begin ExecuteScript 1, Begin CallFunction 2, End CallFunction 4, End ExecuteScript 6,
      Begin CallFunction 7, End CallFunction 8]"
    by (simp add: trace_def)
  show ?thesis
    using
      script_depth_shared [where ss = ?ss and a = InspectorPerformanceAgent and ps = "[]"
        and b = 2 and p = new_probe and e = 4 and k = CallFunction]
      script_depth_shared [where ss = "[]"
        and a = "InspectorPerformanceAgent\<lparr>script_call_depth := 1\<rparr>" and ps = "[]"
        and b = 2 and p = new_probe and e = 4 and k = CallFunction]
    by (simp add: k n d t Will_CallFunction_def Will_ExecuteScript_def Did_CallFunction_def
        Did_ExecuteScript_def Will_UpdateLayout_def Did_UpdateLayout_def new_probe_def
        CaptureStartTime_def Duration_def InspectorPerformanceAgent_def)
qed

text \<open>
  C5 as stated fails: on a fresh agent, after script execution begins at 1 and a function
  call begins at 2, the shared depth is 2 and the probe of the function call is still
  the new probe, with no start time captured; when the function call ends at 4 the
  depth is 1 and the script duration is still 0. The same function call with no script
  span open adds 2.
\<close>

theorem script_depth_shared_counterexample:
  "run [Begin ExecuteScript 1, Begin CallFunction 2] [] InspectorPerformanceAgent =
     ([new_probe, CaptureStartTime 1 new_probe],
      InspectorPerformanceAgent\<lparr>script_call_depth := 2\<rparr>) \<and>
   start_time (CaptureStartTime 1 new_probe) = 1 \<and>
   start_time new_probe = 0 \<and>
   run [Begin ExecuteScript 1, Begin CallFunction 2, End CallFunction 4] []
       InspectorPerformanceAgent =
     ([CaptureStartTime 1 new_probe], InspectorPerformanceAgent\<lparr>script_call_depth := 1\<rparr>) \<and>
   script_duration (InspectorPerformanceAgent\<lparr>script_call_depth := 1\<rparr>) = 0 \<and>
   run [Begin CallFunction 2, End CallFunction 4] [] InspectorPerformanceAgent =
     ([], InspectorPerformanceAgent\<lparr>script_duration := 2\<rparr>)"
  by (simp add: InspectorPerformanceAgent_def Will_ExecuteScript_def Will_CallFunction_def
      Did_CallFunction_def new_probe_def CaptureStartTime_def Duration_def)

section \<open>Task windows\<close>

lemma run_tasks_append: "run_tasks (xs @ ys) a = run_tasks ys (run_tasks xs a)"
  by (induction xs a rule: run_tasks.induct) simp_all

text \<open>
  C3: after any sequence of task events, a task begin event overwrites the stored start
  time of the task window, whatever it was, and changes nothing else. A task end event
  \<open>(s, e)\<close> adds \<open>e - s\<close> to the task duration when \<open>s\<close> equals the stored start time;
  when it differs, the agent is left exactly as it was. Both hooks are total: there
  is no error to produce.
\<close>

theorem task_window_pairing:
  "run_tasks (evs @ [TaskBegin s]) a = (run_tasks evs a)\<lparr>task_start_time := s\<rparr> \<and>
   (task_start_time (run_tasks evs a) = s \<longrightarrow>
      run_tasks (evs @ [TaskEnd s e]) a =
        (run_tasks evs a)\<lparr>task_duration := task_duration (run_tasks evs a) + (e - s)\<rparr>) \<and>
   (task_start_time (run_tasks evs a) \<noteq> s \<longrightarrow>
      run_tasks (evs @ [TaskEnd s e]) a = run_tasks evs a)"
  by (simp add: run_tasks_append WillProcessTask_def DidProcessTask_def)

text \<open>
  The scenario of the spec: a task from 10 to 15 adds 5; after a begin at 20, an end
  event that claims the start 999 adds nothing.
\<close>

theorem task_window_pairing_witness:
  "task_start_time (run_tasks [TaskBegin 10] InspectorPerformanceAgent) = 10 \<and>
   task_duration (run_tasks ([TaskBegin 10] @ [TaskEnd 10 15]) InspectorPerformanceAgent) = 5 \<and>
   task_start_time (run_tasks [TaskBegin 10, TaskEnd 10 15, TaskBegin 20]
      InspectorPerformanceAgent) \<noteq> 999 \<and>
   task_duration (run_tasks ([TaskBegin 10, TaskEnd 10 15, TaskBegin 20] @ [TaskEnd 999 1000])
      InspectorPerformanceAgent) = 5"
  using task_window_pairing [of "[TaskBegin 10]" 10 InspectorPerformanceAgent 15]
    task_window_pairing [of "[TaskBegin 10, TaskEnd 10 15, TaskBegin 20]" 999
      InspectorPerformanceAgent 1000]
  by (simp add: WillProcessTask_def DidProcessTask_def InspectorPerformanceAgent_def)

section \<open>The snapshot\<close>

lemma instance_counters_loop_eq:
  "instance_counters_loop h i n (r, a) =
     (r @ map (\<lambda>j. Metric (kInstanceCounterNames h ! j) (real_of_int (CounterValue h j)))
            [i..<i + n],
      a\<lparr>calls := calls a @ map CallCounterValue [i..<i + n]\<rparr>)"
proof (induction n arbitrary: i r a)
  case 0
  then show ?case by simp
next
  case (Suc n)
  have "[i..<i + Suc n] = i # [Suc i..<Suc i + n]"
    by (simp add: upt_conv_Cons)
  then show ?case
    by (simp add: Suc.IH AppendMetric_def call_host_def)
qed

text \<open>
  C6: on an enabled agent \<open>getMetrics\<close> reports success and returns, in this order: one
  metric for each instance counter of the host, in enumeration order, named by the
  counter's name followed by \<open>Count\<close>; then \<open>LayoutCount\<close>, \<open>RecalcStyleCount\<close>,
  \<open>LayoutDuration\<close>, \<open>RecalcStyleDuration\<close>, \<open>ScriptDuration\<close> and \<open>TaskDuration\<close> with
  the values of the agent's fields; then \<open>FirstMeaningfulPaint\<close> and
  \<open>DomContentLoaded\<close> when the host has a document, and nothing at all when it has
  none.
\<close>

theorem getMetrics_enabled:
  assumes "enabled a"
  shows "fst (getMetrics h a) = OK \<and>
    fst (snd (getMetrics h a)) =
      map (\<lambda>i. Metric (INSTANCE_COUNTERS_LIST h ! i @ ''Count'') (real_of_int (CounterValue h i)))
        [0..<length (INSTANCE_COUNTERS_LIST h)] @
      [Metric ''LayoutCount'' (real (unat (layout_count a))),
       Metric ''RecalcStyleCount'' (real (unat (recalc_style_count a))),
       Metric ''LayoutDuration'' (layout_duration a),
       Metric ''RecalcStyleDuration'' (recalc_style_duration a),
       Metric ''ScriptDuration'' (script_duration a),
       Metric ''TaskDuration'' (task_duration a)] @
      (case GetDocument h of
         None \<Rightarrow> []
       | Some doc \<Rightarrow>
           [Metric ''FirstMeaningfulPaint'' (FirstMeaningfulPaint doc),
            Metric ''DomContentLoaded'' (DomContentLoadedEventStart doc)])"
  using assms
  by (simp add: getMetrics_def instance_counters_loop_eq AppendMetric_def call_host_def
      kInstanceCounterNames_def split: option.split cong: map_cong)

theorem getMetrics_enabled_witness:
  "enabled (snd (enable InspectorPerformanceAgent)) \<and>
   fst (snd (getMetrics example_host (snd (enable InspectorPerformanceAgent)))) =
     [Metric ''NodeCount'' 7, Metric ''DocumentCount'' 3,
      Metric ''LayoutCount'' 0, Metric ''RecalcStyleCount'' 0,
      Metric ''LayoutDuration'' 0, Metric ''RecalcStyleDuration'' 0,
      Metric ''ScriptDuration'' 0, Metric ''TaskDuration'' 0] \<and>
   fst (snd (getMetrics example_host_with_document (snd (enable InspectorPerformanceAgent)))) =
     [Metric ''NodeCount'' 7, Metric ''DocumentCount'' 3,
      Metric ''LayoutCount'' 0, Metric ''RecalcStyleCount'' 0,
      Metric ''LayoutDuration'' 0, Metric ''RecalcStyleDuration'' 0,
      Metric ''ScriptDuration'' 0, Metric ''TaskDuration'' 0,
      Metric ''FirstMeaningfulPaint'' 2, Metric ''DomContentLoaded'' 3]"
proof -
  have en: "enabled (snd (enable InspectorPerformanceAgent))"
    by (simp add: enable_def InspectorPerformanceAgent_def setBoolean_def call_host_def)
  have fields: "layout_count (snd (enable InspectorPerformanceAgent)) = 0"
    "recalc_style_count (snd (enable InspectorPerformanceAgent)) = 0"
    "layout_duration (snd (enable InspectorPerformanceAgent)) = 0"
    "recalc_style_duration (snd (enable InspectorPerformanceAgent)) = 0"
    "script_duration (snd (enable InspectorPerformanceAgent)) = 0"
    "task_duration (snd (enable InspectorPerformanceAgent)) = 0"
    by (simp_all add: enable_def InspectorPerformanceAgent_def setBoolean_def call_host_def)
  have upt: "[0..<2] = [0, Suc 0]"
    by (simp add: upt_conv_Cons)
  show ?thesis
    using getMetrics_enabled [OF en, of example_host]
      getMetrics_enabled [OF en, of example_host_with_document]
    by (simp add: en fields upt example_host_def example_host_with_document_def)
qed

text \<open>
  C7: on a disabled agent \<open>getMetrics\<close> reports success and returns the empty list, and
  the agent it leaves is the agent it found: no field is written and the record of the
  calls to the collaborators, which is part of the agent's record, has not grown. A
  freshly constructed agent is disabled, so this holds for it.
\<close>

theorem getMetrics_disabled:
  "(\<not> enabled a \<longrightarrow> getMetrics h a = (OK, [], a)) \<and>
   \<not> enabled InspectorPerformanceAgent \<and>
   getMetrics h InspectorPerformanceAgent = (OK, [], InspectorPerformanceAgent)"
  by (simp add: getMetrics_def InspectorPerformanceAgent_def)

text \<open>An agent that was enabled and disabled again: its record of calls is not empty.\<close>

theorem getMetrics_disabled_witness:
  "\<not> enabled (snd (disable (snd (enable InspectorPerformanceAgent)))) \<and>
   calls (snd (disable (snd (enable InspectorPerformanceAgent)))) =
     [AddInspectorPerformanceAgent, AddTaskTimeObserver,
      RemoveInspectorPerformanceAgent, RemoveTaskTimeObserver] \<and>
   getMetrics example_host (snd (disable (snd (enable InspectorPerformanceAgent)))) =
     (OK, [], snd (disable (snd (enable InspectorPerformanceAgent))))"
proof -
  have dis: "\<not> enabled (snd (disable (snd (enable InspectorPerformanceAgent))))"
    by (simp add: enable_def disable_def InspectorPerformanceAgent_def setBoolean_def
        call_host_def)
  have "calls (snd (disable (snd (enable InspectorPerformanceAgent)))) =
     [AddInspectorPerformanceAgent, AddTaskTimeObserver,
      RemoveInspectorPerformanceAgent, RemoveTaskTimeObserver]"
    by (simp add: enable_def disable_def InspectorPerformanceAgent_def setBoolean_def
        call_host_def)
  then show ?thesis
    using dis
      getMetrics_disabled [of "snd (disable (snd (enable InspectorPerformanceAgent)))"
        example_host]
    by simp
qed

section \<open>Enabling and disabling the agent\<close>

text \<open>
  C8: \<open>enable\<close> always reports success. On an enabled agent it changes nothing. On a
  disabled agent it sets \<open>enabled\<close>, stores the flag under \<open>PerformanceAgentEnabled\<close>,
  registers the agent once with the instrumentation dispatcher and once with the task
  scheduler, and resets the start time of the task window to 0, the value that stands
  for "unset" in the code. A second call changes nothing, so after two calls on a fresh
  agent each registration has happened exactly once.
\<close>

theorem enable_idempotent:
  "fst (enable a) = OK \<and>
   (enabled a \<longrightarrow> enable a = (OK, a)) \<and>
   (\<not> enabled a \<longrightarrow>
      snd (enable a) =
        a\<lparr>enabled := True,
          state := (state a)(kPerformanceAgentEnabled \<mapsto> True),
          calls := calls a @ [AddInspectorPerformanceAgent, AddTaskTimeObserver],
          task_start_time := 0\<rparr> \<and>
      registrations (snd (enable a)) =
        (Suc (fst (registrations a)), Suc (snd (registrations a)))) \<and>
   enable (snd (enable a)) = (OK, snd (enable a)) \<and>
   registrations (snd (enable (snd (enable InspectorPerformanceAgent)))) = (1, 1)"
  by (simp add: enable_def setBoolean_def call_host_def Let_def registrations_def
      InspectorPerformanceAgent_def)

theorem enable_idempotent_witness:
  "\<not> enabled InspectorPerformanceAgent \<and>
   enabled (snd (enable InspectorPerformanceAgent)) \<and>
   booleanProperty kPerformanceAgentEnabled False (snd (enable InspectorPerformanceAgent)) \<and>
   calls (snd (enable InspectorPerformanceAgent)) =
     [AddInspectorPerformanceAgent, AddTaskTimeObserver] \<and>
   task_start_time (snd (enable InspectorPerformanceAgent)) = 0 \<and>
   registrations (snd (enable InspectorPerformanceAgent)) = (1, 1) \<and>
   enable (snd (enable InspectorPerformanceAgent)) = (OK, snd (enable InspectorPerformanceAgent))"
  using enable_idempotent [of InspectorPerformanceAgent]
  by (simp add: enable_def InspectorPerformanceAgent_def setBoolean_def call_host_def
      booleanProperty_def registrations_def)

text \<open>
  C9: \<open>disable\<close> always reports success and leaves every count, every duration
  (the task duration among them) and both depths as they were; enabling the agent again
  afterwards leaves them as they were too. On a disabled agent \<open>disable\<close> changes
  nothing at all.
\<close>

theorem disable_keeps_counters:
  "fst (disable a) = OK \<and>
   (\<not> enabled a \<longrightarrow> disable a = (OK, a)) \<and>
   counters (snd (disable a)) = counters a \<and>
   counters (snd (enable (snd (disable a)))) = counters a"
  by (simp add: disable_def enable_def setBoolean_def call_host_def Let_def counters_def)

text \<open>
  An enabled agent that has accumulated a task of 5 seconds keeps it through \<open>disable\<close>
  and \<open>enable\<close>; a second \<open>disable\<close> finds the agent disabled and changes nothing.
\<close>

theorem disable_keeps_counters_witness:
  "task_duration (DidProcessTask 0 5 (snd (enable InspectorPerformanceAgent))) = 5 \<and>
   counters (snd (disable (DidProcessTask 0 5 (snd (enable InspectorPerformanceAgent))))) =
     ((0, 0), (0, 0, 0, 5), (0, 0)) \<and>
   counters (snd (enable (snd (disable
       (DidProcessTask 0 5 (snd (enable InspectorPerformanceAgent))))))) =
     ((0, 0), (0, 0, 0, 5), (0, 0)) \<and>
   \<not> enabled (snd (disable (DidProcessTask 0 5 (snd (enable InspectorPerformanceAgent))))) \<and>
   disable (snd (disable (DidProcessTask 0 5 (snd (enable InspectorPerformanceAgent))))) =
     (OK, snd (disable (DidProcessTask 0 5 (snd (enable InspectorPerformanceAgent)))))"
proof -
  let ?a = "DidProcessTask 0 5 (snd (enable InspectorPerformanceAgent))"
  have c: "counters ?a = ((0, 0), (0, 0, 0, 5), (0, 0))"
    by (simp add: counters_def DidProcessTask_def enable_def InspectorPerformanceAgent_def
        setBoolean_def call_host_def)
  have d: "\<not> enabled (snd (disable ?a))"
    by (simp add: disable_def DidProcessTask_def enable_def InspectorPerformanceAgent_def
        setBoolean_def call_host_def)
  have t: "task_duration ?a = 5"
    using c by (simp add: counters_def)
  show ?thesis
    using c d t disable_keeps_counters [of ?a] disable_keeps_counters [of "snd (disable ?a)"]
    by simp
qed

text \<open>
  C10: right after \<open>enable\<close> has enabled a disabled agent, the stored start time of the
  task window is the number 0. A task end event with the start time 0 and the end time
  \<open>t\<close> that arrives before any task begin event therefore matches, and adds \<open>t - 0\<close> to
  the task duration.
\<close>

theorem enable_task_window_zero:
  assumes "\<not> enabled a"
  shows "task_start_time (snd (enable a)) = 0 \<and>
         task_duration (DidProcessTask 0 t (snd (enable a))) = task_duration a + (t - 0)"
  using assms
  by (simp add: enable_def setBoolean_def call_host_def Let_def DidProcessTask_def)

theorem enable_task_window_zero_witness:
  "\<not> enabled InspectorPerformanceAgent \<and>
   task_start_time (snd (enable InspectorPerformanceAgent)) = 0 \<and>
   task_duration (DidProcessTask 0 8 (snd (enable InspectorPerformanceAgent))) = 8"
proof -
  have dis: "\<not> enabled InspectorPerformanceAgent"
    by (simp add: InspectorPerformanceAgent_def)
  have "task_duration InspectorPerformanceAgent = 0"
    by (simp add: InspectorPerformanceAgent_def)
  then show ?thesis
    using dis enable_task_window_zero [OF dis, of 8] by simp
qed

end
